theory Spec2Isabelle
  imports Main
begin

section \<open>Transcript to genomic coordinates: the embedding\<close>

text \<open>
  The program \<^verbatim>\<open>translate_transcript_to_genomic_coords.py\<close> reads a genome mapping
  file (transcript, chromosome, start, CIGAR), builds for every transcript and chromosome
  a dictionary from transcript offsets to genomic offsets, and answers queries
  (transcript, transcript offset) against it.

  Conventions of the embedding:
  \<^item> A Python \<^verbatim>\<open>str\<close> is a \<^typ>\<open>string\<close>; a \<^typ>\<open>char\<close> stands for the code point of
    the same number (U+0000 to U+00FF). The character classes below are Python's on these
    code points.
  \<^item> A Python \<^verbatim>\<open>int\<close> is an \<^typ>\<open>int\<close>.
  \<^item> A Python \<^verbatim>\<open>dict\<close> is an association list with distinct keys, in insertion order:
    the program iterates over its dictionaries, and iteration follows insertion order.
  \<^item> \<^verbatim>\<open>sys.exit()\<close> after an error message and an uncaught \<^verbatim>\<open>ValueError\<close> are values of
    the type \<open>error\<close>; a function that can stop the run returns \<open>error + 'a\<close>.
  \<^item> The two input files are lists of rows, each row the list of fields that
    \<^verbatim>\<open>re.split(r'\s+', row.rstrip())\<close> returns; the output file is the list of lines
    written, each line its four tab-separated fields; the messages printed for queries
    that cannot be answered are a list of their own.
\<close>

subsection \<open>Python's character classes and \<^verbatim>\<open>int()\<close>\<close>

text \<open>\<^verbatim>\<open>c.isalpha()\<close> for one character.\<close>

definition isalpha :: "char \<Rightarrow> bool" where
  "isalpha c =
     (let n = (of_char c :: nat)
      in (65 \<le> n \<and> n \<le> 90) \<or> (97 \<le> n \<and> n \<le> 122) \<or> n = 170 \<or> n = 181 \<or> n = 186 \<or>
         (192 \<le> n \<and> n \<le> 214) \<or> (216 \<le> n \<and> n \<le> 246) \<or> (248 \<le> n \<and> n \<le> 255))"

text \<open>A decimal digit: what \<^verbatim>\<open>\d\<close> matches and what \<^verbatim>\<open>int()\<close> reads as a digit.\<close>

definition is_decimal :: "char \<Rightarrow> bool" where
  "is_decimal c = (let n = (of_char c :: nat) in 48 \<le> n \<and> n \<le> 57)"

definition digit_val :: "char \<Rightarrow> int" where
  "digit_val c = int (of_char c) - 48"

text \<open>
  \<^verbatim>\<open>s.isdigit()\<close>: the string is not empty and every character is a digit. Besides the
  decimal digits, the superscripts two, three and one (U+00B2, U+00B3, U+00B9) are digits
  for \<^verbatim>\<open>isdigit\<close>, though \<^verbatim>\<open>int()\<close> refuses them.
\<close>

definition isdigit_chr :: "char \<Rightarrow> bool" where
  "isdigit_chr c = (let n = (of_char c :: nat) in (48 \<le> n \<and> n \<le> 57) \<or> n = 178 \<or> n = 179 \<or> n = 185)"

definition isdigit :: "string \<Rightarrow> bool" where
  "isdigit s = (s \<noteq> [] \<and> list_all isdigit_chr s)"

text \<open>
  \<^verbatim>\<open>int(s)\<close> for a string, base ten: white space, an optional sign, decimal digits with
  single underscores between them, white space. Anything else raises \<^verbatim>\<open>ValueError\<close>
  (here \<open>None\<close>). The limit on the number of digits of later Python versions is not
  modelled.
\<close>

definition int_isspace :: "char \<Rightarrow> bool" where
  "int_isspace c = ((of_char c :: nat) \<in> {9, 10, 11, 12, 13, 32, 133, 160})"

fun int_digits :: "string \<Rightarrow> int \<Rightarrow> (int \<times> string) option" where
  "int_digits [] acc = Some (acc, [])"
| "int_digits (c # s) acc =
     (if is_decimal c then int_digits s (10 * acc + digit_val c)
      else if c = CHR ''_'' then
        (case s of
           [] \<Rightarrow> None
         | d # s' \<Rightarrow> if is_decimal d then int_digits s' (10 * acc + digit_val d) else None)
      else Some (acc, c # s))"

definition py_int :: "string \<Rightarrow> int option" where
  "py_int s =
     (let t = dropWhile int_isspace s;
          neg = (case t of [] \<Rightarrow> False | c # r \<Rightarrow> c = CHR ''-'');
          u = (case t of [] \<Rightarrow> [] | c # r \<Rightarrow> if c = CHR ''-'' \<or> c = CHR ''+'' then r else t)
      in case u of
           [] \<Rightarrow> None
         | d # r \<Rightarrow>
             if is_decimal d then
               (case int_digits r (digit_val d) of
                  None \<Rightarrow> None
                | Some (n, rest) \<Rightarrow>
                    if list_all int_isspace rest then Some (if neg then - n else n) else None)
             else None)"

subsection \<open>Dictionaries\<close>

text \<open>\<^verbatim>\<open>d[k] = v\<close>: a key already present keeps its place, a new key goes last.\<close>

fun dict_set :: "('k \<times> 'v) list \<Rightarrow> 'k \<Rightarrow> 'v \<Rightarrow> ('k \<times> 'v) list" where
  "dict_set [] k v = [(k, v)]"
| "dict_set ((k', v') # d) k v =
     (if k' = k then (k, v) # d else (k', v') # dict_set d k v)"

text \<open>\<^verbatim>\<open>k in d\<close> and \<^verbatim>\<open>d[k]\<close> (the latter is \<open>map_of d k\<close>).\<close>

definition dict_in :: "'k \<Rightarrow> ('k \<times> 'v) list \<Rightarrow> bool" where
  "dict_in k d = (k \<in> set (map fst d))"

subsection \<open>Errors\<close>

text \<open>
  One constructor for each message after which the program calls \<^verbatim>\<open>sys.exit()\<close>, and
  one for the \<^verbatim>\<open>ValueError\<close> that \<^verbatim>\<open>int()\<close> raises and nothing catches.
\<close>

datatype error =
    GenomeMapColumns            \<comment> \<open>Error! Genome mapping file must have 4 columns\<close>
  | InvalidReferenceCoordinate  \<comment> \<open>Error! Reference coordinate is invalid\<close>
  | InvalidCigarCharacters      \<comment> \<open>Error! CIGAR string contains invalid characters\<close>
  | WrongCigarFormat            \<comment> \<open>Error! Wrong CIGAR string format\<close>
  | TranscriptColumns           \<comment> \<open>Error! Transcript Processing File must contain 2 columns\<close>
  | InvalidTranscriptCoordinate \<comment> \<open>Error! Transcript coordinates must be integers\<close>
  | ValueError

subsection \<open>\<^verbatim>\<open>process_cigar_string\<close>\<close>

text \<open>
  The loop over the characters of the CIGAR string, with the list built so far and the
  buffer \<^verbatim>\<open>cigar_int\<close>. A character that is neither a letter nor \<^verbatim>\<open>=\<close> goes to the
  buffer; a letter or \<^verbatim>\<open>=\<close> closes a segment. What is left in the buffer after the last
  character is dropped.
\<close>

fun process_cigar_loop ::
  "string \<Rightarrow> (int \<times> char) list \<Rightarrow> string \<Rightarrow> error + (int \<times> char) list" where
  "process_cigar_loop [] cigar_list cigar_int = Inr cigar_list"
| "process_cigar_loop (cigar_char # rest) cigar_list cigar_int =
     (if \<not> (isalpha cigar_char \<or> cigar_char = CHR ''='') then
        process_cigar_loop rest cigar_list (cigar_int @ [cigar_char])
      else if cigar_int = [] then Inl WrongCigarFormat
      else
        (case py_int cigar_int of
           None \<Rightarrow> Inl ValueError
         | Some n \<Rightarrow> process_cigar_loop rest (cigar_list @ [(n, cigar_char)]) []))"

definition process_cigar_string :: "string \<Rightarrow> error + (int \<times> char) list" where
  "process_cigar_string cigar_string = process_cigar_loop cigar_string [] []"

subsection \<open>\<^verbatim>\<open>generate_genomic_dict\<close>\<close>

text \<open>
  The three branches test the operation character with \<^verbatim>\<open>re.match\<close> under \<^verbatim>\<open>re.I\<close>:
  \<^verbatim>\<open>[M=X]\<close>, \<^verbatim>\<open>[DN]\<close>, \<^verbatim>\<open>[IS]\<close>. Any other character falls through all three.
\<close>

definition is_query_and_reference :: "char \<Rightarrow> bool" where
  "is_query_and_reference c = (c \<in> set ''M=Xmx'')"

definition is_reference :: "char \<Rightarrow> bool" where
  "is_reference c = (c \<in> set ''DNdn'')"

definition is_query :: "char \<Rightarrow> bool" where
  "is_query c = (c \<in> set ''ISis'')"

text \<open>
  The state of the function is \<open>(genomic_dict, tr_idx, chr_idx)\<close>. Each inner loop runs
  \<^verbatim>\<open>range(cigar_int)\<close>, that is \<open>nat cigar_int\<close> times (not at all for a negative length).
\<close>

type_synonym gen_state = "(int \<times> int) list \<times> int \<times> int"

fun match_loop :: "nat \<Rightarrow> gen_state \<Rightarrow> gen_state" where
  "match_loop 0 st = st"
| "match_loop (Suc k) (genomic_dict, tr_idx, chr_idx) =
     match_loop k (dict_set genomic_dict tr_idx chr_idx, tr_idx + 1, chr_idx + 1)"

fun reference_loop :: "nat \<Rightarrow> gen_state \<Rightarrow> gen_state" where
  "reference_loop 0 st = st"
| "reference_loop (Suc k) (genomic_dict, tr_idx, chr_idx) =
     reference_loop k (genomic_dict, tr_idx, chr_idx + 1)"

fun query_loop :: "nat \<Rightarrow> gen_state \<Rightarrow> gen_state" where
  "query_loop 0 st = st"
| "query_loop (Suc k) (genomic_dict, tr_idx, chr_idx) =
     query_loop k (genomic_dict, tr_idx + 1, chr_idx)"

definition cigar_entry :: "gen_state \<Rightarrow> int \<times> char \<Rightarrow> gen_state" where
  "cigar_entry st entry =
     (let cigar_int = fst entry; cigar_char = snd entry
      in if is_query_and_reference cigar_char then match_loop (nat cigar_int) st
         else if is_reference cigar_char then reference_loop (nat cigar_int) st
         else if is_query cigar_char then query_loop (nat cigar_int) st
         else st)"

fun cigar_entries :: "gen_state \<Rightarrow> (int \<times> char) list \<Rightarrow> gen_state" where
  "cigar_entries st [] = st"
| "cigar_entries st (entry # cigar_arr) = cigar_entries (cigar_entry st entry) cigar_arr"

text \<open>The state when the loop over \<^verbatim>\<open>cigar_arr\<close> ends, and the dictionary returned.\<close>

definition generate_genomic_state :: "int \<Rightarrow> (int \<times> char) list \<Rightarrow> gen_state" where
  "generate_genomic_state chr_start_coord cigar_arr =
     cigar_entries ([], 0, chr_start_coord) cigar_arr"

definition generate_genomic_dict :: "int \<Rightarrow> (int \<times> char) list \<Rightarrow> (int \<times> int) list" where
  "generate_genomic_dict chr_start_coord cigar_arr =
     fst (generate_genomic_state chr_start_coord cigar_arr)"

definition final_chr_idx :: "int \<Rightarrow> (int \<times> char) list \<Rightarrow> int" where
  "final_chr_idx chr_start_coord cigar_arr =
     snd (snd (generate_genomic_state chr_start_coord cigar_arr))"

subsection \<open>Reading the genome mapping file\<close>

text \<open>
  \<^verbatim>\<open>re.search(r'\d+[MIDNSHP=X]', s, re.I)\<close> finds a match anywhere in \<open>s\<close>: there is one
  exactly when some decimal digit is directly followed by one of the operation
  characters, in either case.
\<close>

definition is_cigar_op :: "char \<Rightarrow> bool" where
  "is_cigar_op c = (c \<in> set ''MIDNSHP=Xmidnshpx'')"

fun cigar_search :: "string \<Rightarrow> bool" where
  "cigar_search (a # b # s) = ((is_decimal a \<and> is_cigar_op b) \<or> cigar_search (b # s))"
| "cigar_search _ = False"

text \<open>\<open>None\<close>: the row passes the three checks; \<open>Some e\<close>: the program exits.\<close>

definition check_genome_map_line_format :: "string list \<Rightarrow> error option" where
  "check_genome_map_line_format genome_map_line_arr =
     (if \<not> length genome_map_line_arr = 4 then Some GenomeMapColumns
      else if \<not> isdigit (genome_map_line_arr ! 2) then Some InvalidReferenceCoordinate
      else if \<not> cigar_search (genome_map_line_arr ! 3) then Some InvalidCigarCharacters
      else None)"

record alignment =
  start_coord :: int
  cigar :: "(int \<times> char) list"

type_synonym transcript_dict = "(string \<times> (string \<times> alignment) list) list"

text \<open>
  The body of the loop over the rows. The first assignment,
  \<^verbatim>\<open>transcript_to_genomic_dict[transcript_id] = {}\<close>, gives the transcript a new empty
  dictionary whether or not it has one already; the next three fill in the entry of
  \<^verbatim>\<open>chr_num\<close> in it.
\<close>

definition create_row :: "transcript_dict \<Rightarrow> string list \<Rightarrow> error + transcript_dict" where
  "create_row transcript_to_genomic_dict rows =
     (case check_genome_map_line_format rows of
        Some e \<Rightarrow> Inl e
      | None \<Rightarrow>
          (let transcript_id = rows ! 0; chr_num = rows ! 1;
               start_coord = rows ! 2; cigar = rows ! 3;
               chromosomes = []
           in case py_int start_coord of
                None \<Rightarrow> Inl ValueError
              | Some start \<Rightarrow>
                  (case process_cigar_string cigar of
                     Inl e \<Rightarrow> Inl e
                   | Inr cigar_list \<Rightarrow>
                       Inr (dict_set transcript_to_genomic_dict transcript_id
                              (dict_set chromosomes chr_num
                                 \<lparr>start_coord = start, cigar = cigar_list\<rparr>)))))"

fun create_rows :: "transcript_dict \<Rightarrow> string list list \<Rightarrow> error + transcript_dict" where
  "create_rows transcript_to_genomic_dict [] = Inr transcript_to_genomic_dict"
| "create_rows transcript_to_genomic_dict (rows # genome_map) =
     (case create_row transcript_to_genomic_dict rows of
        Inl e \<Rightarrow> Inl e
      | Inr d \<Rightarrow> create_rows d genome_map)"

definition create_transcript_genomic_dict :: "string list list \<Rightarrow> error + transcript_dict" where
  "create_transcript_genomic_dict genome_map = create_rows [] genome_map"

subsection \<open>\<^verbatim>\<open>map_coordinates\<close>\<close>

type_synonym coord_map = "(string \<times> (string \<times> (int \<times> int) list) list) list"

text \<open>
  Both loops run over the keys of a dictionary, so every key is new to the dictionary
  being built and the entries come out in the order of the input.
\<close>

definition map_coordinates :: "transcript_dict \<Rightarrow> coord_map" where
  "map_coordinates transcript_to_genomic_dict =
     map (\<lambda>(tr, chromosomes).
            (tr, map (\<lambda>(ch, a). (ch, generate_genomic_dict (start_coord a) (cigar a)))
                   chromosomes))
       transcript_to_genomic_dict"

subsection \<open>\<^verbatim>\<open>merge_transcript_file\<close>\<close>

definition check_transcript_line_format :: "string list \<Rightarrow> error option" where
  "check_transcript_line_format transcript_line_arr =
     (if \<not> length transcript_line_arr = 2 then Some TranscriptColumns
      else if \<not> isdigit (transcript_line_arr ! 1) then Some InvalidTranscriptCoordinate
      else None)"

text \<open>The two messages the function prints for a query it cannot answer.\<close>

datatype message =
    UnknownTranscript string
      \<comment> \<open>Transcript \<open>tr_id\<close> does not exist in genome mapping file\<close>
  | UnmappedCoordinate string string
      \<comment> \<open>Transcript coordinate \<open>tr_coord\<close> for transcript \<open>tr_id\<close> does not exist\<close>

text \<open>A line of the output file: \<open>tr_id\<close>, \<open>tr_coord\<close>, \<open>ch\<close> and the genomic coordinate.\<close>

type_synonym out_line = "string \<times> string \<times> string \<times> int"

type_synonym merge_state = "out_line list \<times> message list"

text \<open>The loop over the chromosomes of the transcript of one query.\<close>

fun merge_chromosomes ::
  "string \<Rightarrow> string \<Rightarrow> (string \<times> (int \<times> int) list) list \<Rightarrow> merge_state \<Rightarrow> error + merge_state" where
  "merge_chromosomes tr_id tr_coord [] st = Inr st"
| "merge_chromosomes tr_id tr_coord ((ch, genomic_dict) # chromosomes) (out, msgs) =
     (case py_int tr_coord of
        None \<Rightarrow> Inl ValueError
      | Some n \<Rightarrow>
          (case map_of genomic_dict n of
             None \<Rightarrow>
               merge_chromosomes tr_id tr_coord chromosomes
                 (out, msgs @ [UnmappedCoordinate tr_coord tr_id])
           | Some g \<Rightarrow>
               merge_chromosomes tr_id tr_coord chromosomes
                 (out @ [(tr_id, tr_coord, ch, g)], msgs)))"

text \<open>The body of the loop over the queries, and the loop.\<close>

definition merge_query :: "coord_map \<Rightarrow> string list \<Rightarrow> merge_state \<Rightarrow> error + merge_state" where
  "merge_query coord_map queries st =
     (case check_transcript_line_format queries of
        Some e \<Rightarrow> Inl e
      | None \<Rightarrow>
          (let tr_id = queries ! 0; tr_coord = queries ! 1
           in case map_of coord_map tr_id of
                None \<Rightarrow> Inr (fst st, snd st @ [UnknownTranscript tr_id])
              | Some chromosomes \<Rightarrow> merge_chromosomes tr_id tr_coord chromosomes st))"

fun merge_queries :: "coord_map \<Rightarrow> string list list \<Rightarrow> merge_state \<Rightarrow> error + merge_state" where
  "merge_queries coord_map [] st = Inr st"
| "merge_queries coord_map (queries # transcript_processing_file) st =
     (case merge_query coord_map queries st of
        Inl e \<Rightarrow> Inl e
      | Inr st' \<Rightarrow> merge_queries coord_map transcript_processing_file st')"

definition merge_transcript_file :: "string list list \<Rightarrow> coord_map \<Rightarrow> error + merge_state" where
  "merge_transcript_file transcript_processing_file coord_map =
     merge_queries coord_map transcript_processing_file ([], [])"

subsection \<open>The whole run\<close>

definition transcript_to_genomic_coordinates ::
  "string list list \<Rightarrow> string list list \<Rightarrow> error + merge_state" where
  "transcript_to_genomic_coordinates genome_mapping_file transcript_processing_file =
     (case create_transcript_genomic_dict genome_mapping_file of
        Inl e \<Rightarrow> Inl e
      | Inr transcript_genomic_alignment \<Rightarrow>
          merge_transcript_file transcript_processing_file
            (map_coordinates transcript_genomic_alignment))"

subsection \<open>Notions used to state the properties\<close>

text \<open>
  The alignment of the program's own documentation: CIGAR \<^verbatim>\<open>8M7D6M2I2M11D7M\<close>, as
  \<^verbatim>\<open>process_cigar_string\<close> returns it.
\<close>

definition example_cigar :: "(int \<times> char) list" where
  "example_cigar =
     [(8, CHR ''M''), (7, CHR ''D''), (6, CHR ''M''), (2, CHR ''I''), (2, CHR ''M''),
      (11, CHR ''D''), (7, CHR ''M'')]"

text \<open>The dictionary that maps each of the offsets \<open>0, \<dots>, n - 1\<close> to \<open>s\<close> plus the offset.\<close>

definition identity_dict :: "int \<Rightarrow> nat \<Rightarrow> (int \<times> int) list" where
  "identity_dict s n = map (\<lambda>i. (int i, s + int i)) [0..<n]"

text \<open>
  The invariant of the loops of \<^verbatim>\<open>generate_genomic_dict\<close>: the entries are in strictly
  increasing order of key and of value, and lie below the two cursors.
\<close>

definition gen_inv :: "gen_state \<Rightarrow> bool" where
  "gen_inv st =
     (case st of (d, t, c) \<Rightarrow>
        sorted_wrt (\<lambda>a b. fst a < fst b \<and> snd a < snd b) d \<and>
        (\<forall>e \<in> set d. fst e < t \<and> snd e < c))"

text \<open>
  The operations that consume the reference, \<^verbatim>\<open>M\<close>, \<^verbatim>\<open>=\<close>, \<^verbatim>\<open>X\<close>, \<^verbatim>\<open>D\<close> and \<^verbatim>\<open>N\<close>, and
  those said to contribute nothing to the genomic cursor, \<^verbatim>\<open>H\<close>, \<^verbatim>\<open>P\<close>, \<^verbatim>\<open>I\<close> and \<^verbatim>\<open>S\<close>;
  \<^verbatim>\<open>process_cigar_string\<close> keeps the case of the character it read, so both cases stand
  for the operation.
\<close>

definition reference_consuming :: "char \<Rightarrow> bool" where
  "reference_consuming c = (c \<in> set ''M=XDNmxdn'')"

definition contributes_nothing :: "char \<Rightarrow> bool" where
  "contributes_nothing c = (c \<in> set ''HPIShpis'')"

text \<open>
  The segments of a CIGAR string: each letter or \<^verbatim>\<open>=\<close> with the characters that stand
  between it and the letter or \<^verbatim>\<open>=\<close> before it (\<open>buf\<close> holds those read so far). The
  characters after the last one belong to no segment.
\<close>

fun cigar_segments :: "string \<Rightarrow> string \<Rightarrow> (string \<times> char) list" where
  "cigar_segments [] buf = []"
| "cigar_segments (c # s) buf =
     (if isalpha c \<or> c = CHR ''='' then (buf, c) # cigar_segments s []
      else cigar_segments s (buf @ [c]))"

text \<open>The number that a run of decimal digits denotes.\<close>

definition decimal_value :: "string \<Rightarrow> int" where
  "decimal_value ds = foldl (\<lambda>a d. 10 * a + digit_val d) 0 ds"

text \<open>
  What the loop over the chromosomes of a transcript writes and prints for the
  coordinate \<open>n\<close>: a line for each chromosome whose dictionary has the key, a message for
  each chromosome whose dictionary lacks it.
\<close>

fun written_lines ::
  "string \<Rightarrow> string \<Rightarrow> int \<Rightarrow> (string \<times> (int \<times> int) list) list \<Rightarrow> out_line list" where
  "written_lines tr_id tr_coord n [] = []"
| "written_lines tr_id tr_coord n ((ch, genomic_dict) # chromosomes) =
     (case map_of genomic_dict n of
        None \<Rightarrow> written_lines tr_id tr_coord n chromosomes
      | Some g \<Rightarrow> (tr_id, tr_coord, ch, g) # written_lines tr_id tr_coord n chromosomes)"

fun printed_messages ::
  "string \<Rightarrow> string \<Rightarrow> int \<Rightarrow> (string \<times> (int \<times> int) list) list \<Rightarrow> message list" where
  "printed_messages tr_id tr_coord n [] = []"
| "printed_messages tr_id tr_coord n ((ch, genomic_dict) # chromosomes) =
     (case map_of genomic_dict n of
        None \<Rightarrow> UnmappedCoordinate tr_coord tr_id # printed_messages tr_id tr_coord n chromosomes
      | Some g \<Rightarrow> printed_messages tr_id tr_coord n chromosomes)"

section \<open>Properties\<close>

subsection \<open>The loops of \<^verbatim>\<open>generate_genomic_dict\<close> in closed form\<close>

lemma dict_set_new: "k \<notin> fst ` set d \<Longrightarrow> dict_set d k v = d @ [(k, v)]"
  by (induction d) auto

lemma reference_loop_eq: "reference_loop k (d, t, c) = (d, t, c + int k)"
  by (induction k arbitrary: c) auto

lemma query_loop_eq: "query_loop k (d, t, c) = (d, t + int k, c)"
  by (induction k arbitrary: t) auto

lemma match_loop_eq:
  "\<forall>e \<in> set d. fst e < t \<Longrightarrow>
   match_loop k (d, t, c) = (d @ map (\<lambda>i. (t + int i, c + int i)) [0..<k], t + int k, c + int k)"
proof (induction k arbitrary: d t c)
  case 0
  then show ?case by simp
next
  case (Suc k)
  have new: "t \<notin> fst ` set d" using Suc.prems by auto
  have below: "\<forall>e \<in> set (d @ [(t, c)]). fst e < t + 1" using Suc.prems by auto
  have "match_loop (Suc k) (d, t, c) = match_loop k (d @ [(t, c)], t + 1, c + 1)"
    by (simp add: dict_set_new [OF new])
  also have "\<dots> = ((d @ [(t, c)]) @ map (\<lambda>i. (t + 1 + int i, c + 1 + int i)) [0..<k],
                     t + 1 + int k, c + 1 + int k)"
    by (rule Suc.IH [OF below])
  also have "\<dots> = (d @ map (\<lambda>i. (t + int i, c + int i)) [0..<Suc k], t + int (Suc k), c + int (Suc k))"
    by (simp add: map_upt_Suc add.assoc del: upt_Suc)
  finally show ?case .
qed

lemma match_loop_chr: "snd (snd (match_loop k (d, t, c))) = c + int k"
  by (induction k arbitrary: d t c) auto

subsection \<open>The deletion example\<close>

text \<open>
  Claim C1. For the CIGAR string \<^verbatim>\<open>8M7D6M2I2M11D7M\<close> and the start 3, the dictionary built
  is exactly: offsets 0 to 7 on 3 to 10, offsets 8 to 13 on 18 to 23, offsets 16 and 17 on
  24 and 25, offsets 18 to 24 on 37 to 43; offsets 14 and 15 are not keys.
\<close>

theorem deletion_example:
  "process_cigar_string ''8M7D6M2I2M11D7M'' =
     Inr [(8, CHR ''M''), (7, CHR ''D''), (6, CHR ''M''), (2, CHR ''I''), (2, CHR ''M''),
          (11, CHR ''D''), (7, CHR ''M'')] \<and>
   generate_genomic_dict 3
     [(8, CHR ''M''), (7, CHR ''D''), (6, CHR ''M''), (2, CHR ''I''), (2, CHR ''M''),
      (11, CHR ''D''), (7, CHR ''M'')] =
     [(0, 3), (1, 4), (2, 5), (3, 6), (4, 7), (5, 8), (6, 9), (7, 10),
      (8, 18), (9, 19), (10, 20), (11, 21), (12, 22), (13, 23),
      (16, 24), (17, 25),
      (18, 37), (19, 38), (20, 39), (21, 40), (22, 41), (23, 42), (24, 43)]"
proof
  show "process_cigar_string ''8M7D6M2I2M11D7M'' =
     Inr [(8, CHR ''M''), (7, CHR ''D''), (6, CHR ''M''), (2, CHR ''I''), (2, CHR ''M''),
          (11, CHR ''D''), (7, CHR ''M'')]"
    by code_simp
  show "generate_genomic_dict 3
     [(8, CHR ''M''), (7, CHR ''D''), (6, CHR ''M''), (2, CHR ''I''), (2, CHR ''M''),
      (11, CHR ''D''), (7, CHR ''M'')] =
     [(0, 3), (1, 4), (2, 5), (3, 6), (4, 7), (5, 8), (6, 9), (7, 10),
      (8, 18), (9, 19), (10, 20), (11, 21), (12, 22), (13, 23),
      (16, 24), (17, 25),
      (18, 37), (19, 38), (20, 39), (21, 40), (22, 41), (23, 42), (24, 43)]"
    by code_simp
qed

subsection \<open>Monotonicity\<close>

lemma gen_inv_match: "gen_inv (d, t, c) \<Longrightarrow> gen_inv (match_loop k (d, t, c))"
proof (induction k arbitrary: d t c)
  case 0
  then show ?case by simp
next
  case (Suc k)
  have new: "t \<notin> fst ` set d" using Suc.prems by (auto simp: gen_inv_def)
  have "gen_inv (d @ [(t, c)], t + 1, c + 1)"
    using Suc.prems by (fastforce simp: gen_inv_def sorted_wrt_append)
  then have "gen_inv (match_loop k (d @ [(t, c)], t + 1, c + 1))" by (rule Suc.IH)
  then show ?case by (simp add: dict_set_new [OF new])
qed

lemma gen_inv_reference: "gen_inv (d, t, c) \<Longrightarrow> gen_inv (reference_loop k (d, t, c))"
  by (fastforce simp: reference_loop_eq gen_inv_def)

lemma gen_inv_query: "gen_inv (d, t, c) \<Longrightarrow> gen_inv (query_loop k (d, t, c))"
  by (fastforce simp: query_loop_eq gen_inv_def)

lemma gen_inv_entry: "gen_inv st \<Longrightarrow> gen_inv (cigar_entry st entry)"
  by (cases st) (simp add: cigar_entry_def Let_def gen_inv_match gen_inv_reference gen_inv_query)

lemma gen_inv_entries: "gen_inv st \<Longrightarrow> gen_inv (cigar_entries st cigar_arr)"
  by (induction cigar_arr arbitrary: st) (simp_all add: gen_inv_entry)

lemma gen_inv_generate: "gen_inv (generate_genomic_state chr_start_coord cigar_arr)"
  unfolding generate_genomic_state_def by (rule gen_inv_entries) (simp add: gen_inv_def)

lemma sorted_wrt_pair:
  "sorted_wrt P xs \<Longrightarrow> x \<in> set xs \<Longrightarrow> y \<in> set xs \<Longrightarrow> x = y \<or> P x y \<or> P y x"
  by (induction xs) auto

text \<open>
  Claim C5. For every start and every CIGAR list, the dictionary built is strictly
  increasing: of two keys, the smaller has the smaller genomic coordinate.
\<close>

theorem generate_genomic_dict_strictly_increasing:
  assumes "map_of (generate_genomic_dict chr_start_coord cigar_arr) i = Some gi"
    and "map_of (generate_genomic_dict chr_start_coord cigar_arr) j = Some gj"
    and "i < j"
  shows "gi < gj"
proof -
  let ?d = "generate_genomic_dict chr_start_coord cigar_arr"
  have "gen_inv (generate_genomic_state chr_start_coord cigar_arr)"
    by (rule gen_inv_generate)
  then have sorted: "sorted_wrt (\<lambda>a b. fst a < fst b \<and> snd a < snd b) ?d"
    by (simp add: gen_inv_def generate_genomic_dict_def split: prod.splits)
  have "(i, gi) \<in> set ?d" and "(j, gj) \<in> set ?d"
    using assms(1,2) by (auto dest: map_of_SomeD)
  with sorted_wrt_pair [OF sorted] have
    "(i, gi) = (j, gj) \<or> (i < j \<and> gi < gj) \<or> (j < i \<and> gj < gi)"
    by fastforce
  with \<open>i < j\<close> show ?thesis by auto
qed

theorem generate_genomic_dict_strictly_increasing_witness:
  "map_of (generate_genomic_dict 3 example_cigar) 13 = Some 23 \<and>
   map_of (generate_genomic_dict 3 example_cigar) 16 = Some 24 \<and>
   (13 :: int) < 16 \<and> (23 :: int) < 24"
proof -
  have i: "map_of (generate_genomic_dict 3 example_cigar) 13 = Some 23" by code_simp
  have j: "map_of (generate_genomic_dict 3 example_cigar) 16 = Some 24" by code_simp
  have less: "(13 :: int) < 16" by simp
  from generate_genomic_dict_strictly_increasing [OF i j less] have "(23 :: int) < 24" .
  with i j less show ?thesis by simp
qed

subsection \<open>Operations that consume both sequences\<close>

lemma match_loop_identity:
  "match_loop k (identity_dict s n, int n, s + int n) =
     (identity_dict s (n + k), int (n + k), s + int (n + k))"
proof -
  have below: "\<forall>e \<in> set (identity_dict s n). fst e < int n"
    by (auto simp: identity_dict_def)
  have shift: "map (\<lambda>i. (int n + int i, s + int n + int i)) [0..<k] =
        map (\<lambda>i. (int i, s + int i)) [n..<n + k]"
    by (simp add: map_add_upt [symmetric] add.commute add.left_commute)
  have split: "[0..<n + k] = [0..<n] @ [n..<n + k]"
    using upt_add_eq_append [of 0 n k] by simp
  have "match_loop k (identity_dict s n, int n, s + int n) =
        (identity_dict s n @ map (\<lambda>i. (int n + int i, s + int n + int i)) [0..<k],
         int n + int k, s + int n + int k)"
    by (rule match_loop_eq [OF below])
  also have "\<dots> = (identity_dict s (n + k), int (n + k), s + int (n + k))"
    unfolding shift by (simp add: identity_dict_def split)
  finally show ?thesis .
qed

lemma cigar_entries_identity:
  "\<forall>e \<in> set cigar_arr. is_query_and_reference (snd e) \<Longrightarrow>
   cigar_entries (identity_dict s n, int n, s + int n) cigar_arr =
     (let m = n + sum_list (map (\<lambda>e. nat (fst e)) cigar_arr)
      in (identity_dict s m, int m, s + int m))"
proof (induction cigar_arr arbitrary: n)
  case Nil
  then show ?case by simp
next
  case (Cons entry cigar_arr)
  have "cigar_entry (identity_dict s n, int n, s + int n) entry =
        (identity_dict s (n + nat (fst entry)), int (n + nat (fst entry)), s + int (n + nat (fst entry)))"
    using Cons.prems by (simp add: cigar_entry_def Let_def match_loop_identity)
  moreover have "\<forall>e \<in> set cigar_arr. is_query_and_reference (snd e)"
    using Cons.prems by simp
  ultimately show ?case
    using Cons.IH [of "n + nat (fst entry)"] by (simp add: Let_def add.assoc)
qed

lemma sum_list_nat_nonneg:
  "\<forall>e \<in> set cigar_arr. 0 \<le> fst e \<Longrightarrow>
   int (sum_list (map (\<lambda>e. nat (fst e)) cigar_arr)) = sum_list (map fst cigar_arr)"
  by (induction cigar_arr) auto

lemma map_of_identity_dict:
  "map_of (identity_dict s n) i = (if 0 \<le> i \<and> i < int n then Some (s + i) else None)"
proof (induction n)
  case 0
  then show ?case by (simp add: identity_dict_def)
next
  case (Suc n)
  have "identity_dict s (Suc n) = identity_dict s n @ [(int n, s + int n)]"
    by (simp add: identity_dict_def)
  then show ?case using Suc by (auto simp: map_add_def split: option.splits)
qed

lemma generate_identity:
  assumes "\<forall>e \<in> set cigar_arr. is_query_and_reference (snd e)"
  shows "generate_genomic_dict s cigar_arr =
           identity_dict s (sum_list (map (\<lambda>e. nat (fst e)) cigar_arr))"
  using cigar_entries_identity [OF assms, of s 0]
  by (simp add: generate_genomic_dict_def generate_genomic_state_def identity_dict_def Let_def)

text \<open>
  Claim C4. For a CIGAR list of operations \<^verbatim>\<open>M\<close>, \<^verbatim>\<open>=\<close> and \<^verbatim>\<open>X\<close> only, of lengths that
  sum to \<open>L\<close> (each length a natural number, as the lengths of operations are), and every
  start \<open>S\<close>: the dictionary built has exactly \<open>L\<close> entries, its keys are \<open>0, \<dots>, L - 1\<close>, and
  key \<open>i\<close> has the value \<open>S + i\<close>.
\<close>

theorem generate_genomic_dict_match_only:
  assumes ops: "\<forall>e \<in> set cigar_arr. is_query_and_reference (snd e) \<and> 0 \<le> fst e"
    and L: "L = sum_list (map fst cigar_arr)"
  shows "int (length (generate_genomic_dict S cigar_arr)) = L \<and>
         distinct (map fst (generate_genomic_dict S cigar_arr)) \<and>
         set (map fst (generate_genomic_dict S cigar_arr)) = {0..<L} \<and>
         (\<forall>i \<in> {0..<L}. map_of (generate_genomic_dict S cigar_arr) i = Some (S + i))"
proof -
  let ?n = "sum_list (map (\<lambda>e. nat (fst e)) cigar_arr)"
  have d: "generate_genomic_dict S cigar_arr = identity_dict S ?n"
    using ops by (intro generate_identity) simp
  have n: "int ?n = L"
    using ops by (simp add: L sum_list_nat_nonneg)
  have len: "int (length (identity_dict S ?n)) = L"
    using n by (simp add: identity_dict_def)
  have keys: "map fst (identity_dict S ?n) = map int [0..<?n]"
    by (simp add: identity_dict_def comp_def)
  have dist: "distinct (map fst (identity_dict S ?n))"
    unfolding keys by (simp add: distinct_map)
  have "set (map int [0..<?n]) = {0..<int ?n}"
    by (simp add: image_int_atLeastLessThan flip: image_set atLeastLessThan_upt del: set_upt)
  then have dom: "set (map fst (identity_dict S ?n)) = {0..<L}"
    unfolding keys n .
  have vals: "\<forall>i \<in> {0..<L}. map_of (identity_dict S ?n) i = Some (S + i)"
    using n by (simp add: map_of_identity_dict)
  show ?thesis unfolding d using len dist dom vals by simp
qed

theorem generate_genomic_dict_match_only_witness:
  "length (generate_genomic_dict 10 [(3, CHR ''M''), (2, CHR ''=''), (4, CHR ''x'')]) = 9 \<and>
   set (map fst (generate_genomic_dict 10 [(3, CHR ''M''), (2, CHR ''=''), (4, CHR ''x'')])) = {0..<9} \<and>
   map_of (generate_genomic_dict 10 [(3, CHR ''M''), (2, CHR ''=''), (4, CHR ''x'')]) 4 = Some 14"
proof -
  have ops: "\<forall>e \<in> set [(3 :: int, CHR ''M''), (2, CHR ''=''), (4, CHR ''x'')].
               is_query_and_reference (snd e) \<and> 0 \<le> fst e"
    by (simp add: is_query_and_reference_def)
  have L: "(9 :: int) = sum_list (map fst [(3 :: int, CHR ''M''), (2, CHR ''=''), (4, CHR ''x'')])"
    by simp
  from generate_genomic_dict_match_only [OF ops L, of 10] show ?thesis by simp
qed

subsection \<open>The genomic cursor\<close>

lemma chr_idx_entry:
  "snd (snd (cigar_entry st entry)) =
     snd (snd st) + (if reference_consuming (snd entry) then int (nat (fst entry)) else 0)"
proof (cases st)
  case (fields d t c)
  show ?thesis
    unfolding fields
    by (simp add: cigar_entry_def Let_def match_loop_chr reference_loop_eq query_loop_eq
        reference_consuming_def is_query_and_reference_def is_reference_def)
qed

lemma chr_idx_entries:
  "snd (snd (cigar_entries st cigar_arr)) =
     snd (snd st) +
     sum_list (map (\<lambda>e. if reference_consuming (snd e) then int (nat (fst e)) else 0) cigar_arr)"
  by (induction cigar_arr arbitrary: st) (simp_all add: chr_idx_entry)

lemma final_chr_idx_sum:
  "final_chr_idx S cigar_arr =
     S + sum_list (map (\<lambda>e. if reference_consuming (snd e) then int (nat (fst e)) else 0) cigar_arr)"
  by (simp add: final_chr_idx_def generate_genomic_state_def chr_idx_entries)

lemma consumed_sum_nonneg:
  "\<forall>e \<in> set cigar_arr. 0 \<le> fst e \<Longrightarrow>
   sum_list (map (\<lambda>e. if reference_consuming (snd e) then int (nat (fst e)) else 0) cigar_arr) =
   sum_list (map fst (filter (\<lambda>e. reference_consuming (snd e)) cigar_arr))"
  by (induction cigar_arr) auto

lemma consumed_sum_filter:
  "sum_list (map (\<lambda>e. if reference_consuming (snd e) then int (nat (fst e)) else 0)
       (filter (\<lambda>e. \<not> contributes_nothing (snd e)) cigar_arr)) =
   sum_list (map (\<lambda>e. if reference_consuming (snd e) then int (nat (fst e)) else 0) cigar_arr)"
  by (induction cigar_arr) (auto simp: reference_consuming_def contributes_nothing_def)

text \<open>
  When no length is negative, the lengths of the operations that consume the reference sum
  to the final value of \<^verbatim>\<open>chr_idx\<close> minus the start; and, whatever the lengths, the
  operations \<^verbatim>\<open>H\<close>, \<^verbatim>\<open>P\<close>, \<^verbatim>\<open>I\<close> and \<^verbatim>\<open>S\<close> contribute nothing: without them the final
  value of \<^verbatim>\<open>chr_idx\<close> is the same.
\<close>

lemma final_chr_idx_nonneg_lengths:
  assumes "\<forall>e \<in> set cigar_arr. 0 \<le> fst e"
  shows "final_chr_idx S cigar_arr - S =
           sum_list (map fst (filter (\<lambda>e. reference_consuming (snd e)) cigar_arr))"
  using consumed_sum_nonneg [OF assms] by (simp add: final_chr_idx_sum)

lemma final_chr_idx_contributes_nothing:
  "final_chr_idx S (filter (\<lambda>e. \<not> contributes_nothing (snd e)) cigar_arr) =
     final_chr_idx S cigar_arr"
  by (simp add: final_chr_idx_sum consumed_sum_filter)

subsection \<open>The parser: trailing digits\<close>

lemma decimal_not_operator: "is_decimal c \<Longrightarrow> \<not> (isalpha c \<or> c = CHR ''='')"
  by (auto simp: is_decimal_def isalpha_def Let_def)

lemma process_cigar_loop_digits:
  "list_all is_decimal ds \<Longrightarrow> process_cigar_loop ds cigar_list cigar_int = Inr cigar_list"
proof (induction ds arbitrary: cigar_int)
  case Nil
  then show ?case by simp
next
  case (Cons c ds)
  then have "\<not> (isalpha c \<or> c = CHR ''='')" by (simp add: decimal_not_operator)
  with Cons show ?case by simp
qed

lemma process_cigar_loop_trailing:
  "list_all is_decimal ds \<Longrightarrow>
   process_cigar_loop (s @ ds) cigar_list cigar_int = process_cigar_loop s cigar_list cigar_int"
proof (induction s arbitrary: cigar_list cigar_int)
  case Nil
  then show ?case by (simp add: process_cigar_loop_digits)
next
  case (Cons c s)
  then show ?case by (simp split: option.splits)
qed

text \<open>
  Claim C10. For a CIGAR string that ends with digits after which no operator follows,
  such as \<^verbatim>\<open>8M7\<close>, the parser drops the trailing digits in silence: for every string \<open>s\<close>
  and every run of digits \<open>ds\<close> it returns for \<open>s\<close> followed by \<open>ds\<close> what it returns for
  \<open>s\<close>. The digits raise no error, and the output is the output for the string without
  them.
\<close>

theorem process_cigar_string_trailing_digits:
  assumes "list_all is_decimal ds"
  shows "process_cigar_string (s @ ds) = process_cigar_string s"
  unfolding process_cigar_string_def using assms by (rule process_cigar_loop_trailing)

theorem process_cigar_string_trailing_digits_witness:
  "process_cigar_string ''8M7'' = Inr [(8, CHR ''M'')]"
proof -
  have digits: "list_all is_decimal ''7''" by code_simp
  have accepted: "process_cigar_string ''8M'' = Inr [(8, CHR ''M'')]" by code_simp
  from process_cigar_string_trailing_digits [OF digits, of "''8M''"] accepted
  show ?thesis by simp
qed

subsection \<open>The parser: lengths\<close>

lemma digit_val_nonneg: "is_decimal c \<Longrightarrow> 0 \<le> digit_val c"
  by (simp add: is_decimal_def digit_val_def Let_def)

lemma digit_val_pos: "is_decimal c \<Longrightarrow> c \<noteq> CHR ''0'' \<Longrightarrow> 1 \<le> digit_val c"
proof -
  assume c: "is_decimal c" and nz: "c \<noteq> CHR ''0''"
  have "(of_char c :: nat) \<noteq> of_char CHR ''0''"
    using nz by (simp only: of_char_eq_iff not_False_eq_True)
  then have "(of_char c :: nat) \<noteq> 48" by simp
  with c show ?thesis by (simp add: is_decimal_def digit_val_def Let_def)
qed

lemma int_digits_decimal:
  "list_all is_decimal r \<Longrightarrow> 0 \<le> acc \<Longrightarrow> \<exists>n. int_digits r acc = Some (n, []) \<and> acc \<le> n"
proof (induction r arbitrary: acc)
  case Nil
  then show ?case by simp
next
  case (Cons c r)
  from Cons.prems have c: "is_decimal c" and r: "list_all is_decimal r" by simp_all
  have "0 \<le> 10 * acc + digit_val c"
    using Cons.prems(2) digit_val_nonneg [OF c] by simp
  from Cons.IH [OF r this] obtain n where
    "int_digits r (10 * acc + digit_val c) = Some (n, [])" and "10 * acc + digit_val c \<le> n"
    by blast
  with c Cons.prems(2) digit_val_nonneg [OF c] show ?case by simp
qed

lemma decimal_not_space: "is_decimal c \<Longrightarrow> \<not> int_isspace c"
  by (auto simp: is_decimal_def int_isspace_def Let_def)

lemma decimal_not_sign: "is_decimal c \<Longrightarrow> c \<noteq> CHR ''-'' \<and> c \<noteq> CHR ''+''"
  by (auto simp: is_decimal_def Let_def)

text \<open>\<^verbatim>\<open>int()\<close> of a run of decimal digits is at least the value of its first digit.\<close>

lemma py_int_decimal:
  assumes "list_all is_decimal buf" and "buf \<noteq> []"
  shows "\<exists>n. py_int buf = Some n \<and> digit_val (hd buf) \<le> n"
proof -
  from assms obtain d r where buf: "buf = d # r" by (cases buf) auto
  with assms have d: "is_decimal d" and r: "list_all is_decimal r" by simp_all
  from int_digits_decimal [OF r digit_val_nonneg [OF d]] obtain n where
    n: "int_digits r (digit_val d) = Some (n, [])" "digit_val d \<le> n" by blast
  show ?thesis
    using d n decimal_not_space [OF d] decimal_not_sign [OF d]
    by (simp add: py_int_def buf)
qed

text \<open>
  The loop, for a string of decimal digits of value at least \<open>lo\<close>, letters and \<^verbatim>\<open>=\<close>:
  every length is at least \<open>lo\<close>.
\<close>

lemma process_cigar_loop_lengths:
  assumes "list_all (\<lambda>c. is_decimal c \<and> lo \<le> digit_val c \<or> isalpha c \<or> c = CHR ''='') s"
    and "list_all (\<lambda>c. is_decimal c \<and> lo \<le> digit_val c) cigar_int"
    and "\<forall>e \<in> set cigar_list. lo \<le> fst e"
    and "process_cigar_loop s cigar_list cigar_int = Inr ops"
  shows "\<forall>e \<in> set ops. lo \<le> fst e"
  using assms
proof (induction s arbitrary: cigar_list cigar_int)
  case Nil
  then show ?case by simp
next
  case (Cons c s)
  have rest: "list_all (\<lambda>c. is_decimal c \<and> lo \<le> digit_val c \<or> isalpha c \<or> c = CHR ''='') s"
    using Cons.prems(1) by simp
  show ?case
  proof (cases "isalpha c \<or> c = CHR ''=''")
    case False
    with Cons.prems(1) have c: "is_decimal c \<and> lo \<le> digit_val c" by simp
    from False Cons.prems(4) have run:
      "process_cigar_loop s cigar_list (cigar_int @ [c]) = Inr ops" by simp
    have buf: "list_all (\<lambda>c. is_decimal c \<and> lo \<le> digit_val c) (cigar_int @ [c])"
      using Cons.prems(2) c by simp
    show ?thesis
      by (rule Cons.IH [OF rest buf Cons.prems(3) run])
  next
    case True
    with Cons.prems(4) have ne: "cigar_int \<noteq> []" by (auto split: if_splits)
    have decimal: "list_all is_decimal cigar_int"
      using Cons.prems(2) by (simp add: list_all_iff)
    from py_int_decimal [OF decimal ne] obtain n where
      n: "py_int cigar_int = Some n" "digit_val (hd cigar_int) \<le> n" by blast
    have "lo \<le> digit_val (hd cigar_int)"
      using Cons.prems(2) ne by (cases cigar_int) auto
    then have "lo \<le> n" using n(2) by simp
    then have acc: "\<forall>e \<in> set (cigar_list @ [(n, c)]). lo \<le> fst e"
      using Cons.prems(3) by simp
    from True ne n(1) Cons.prems(4) have run:
      "process_cigar_loop s (cigar_list @ [(n, c)]) [] = Inr ops" by simp
    have buf: "list_all (\<lambda>c. is_decimal c \<and> lo \<le> digit_val c) []" by simp
    show ?thesis
      by (rule Cons.IH [OF rest buf acc run])
  qed
qed

text \<open>The value of a run of decimal digits, and when it is at least 1.\<close>

lemma int_digits_value:
  "list_all is_decimal r \<Longrightarrow>
   int_digits r acc = Some (foldl (\<lambda>a d. 10 * a + digit_val d) acc r, [])"
  by (induction r arbitrary: acc) simp_all

lemma py_int_decimal_value:
  assumes "list_all is_decimal buf" and "buf \<noteq> []"
  shows "py_int buf = Some (decimal_value buf)"
proof -
  from assms obtain d r where buf: "buf = d # r" by (cases buf) auto
  with assms have d: "is_decimal d" and r: "list_all is_decimal r" by simp_all
  show ?thesis
    using d int_digits_value [OF r] decimal_not_space [OF d] decimal_not_sign [OF d]
    by (simp add: py_int_def buf decimal_value_def)
qed

lemma digit_val_zero: "digit_val CHR ''0'' = 0"
  by (simp add: digit_val_def)

lemma digits_value_bounds:
  "list_all is_decimal r \<Longrightarrow> 0 \<le> acc \<Longrightarrow>
   0 \<le> foldl (\<lambda>a d. 10 * a + digit_val d) acc r \<and>
   (1 \<le> foldl (\<lambda>a d. 10 * a + digit_val d) acc r \<longleftrightarrow> 1 \<le> acc \<or> (\<exists>d \<in> set r. d \<noteq> CHR ''0''))"
proof (induction r arbitrary: acc)
  case Nil
  then show ?case by simp
next
  case (Cons c r)
  from Cons.prems have c: "is_decimal c" and r: "list_all is_decimal r" by simp_all
  have nonneg: "0 \<le> 10 * acc + digit_val c"
    using Cons.prems(2) digit_val_nonneg [OF c] by simp
  have pos: "1 \<le> 10 * acc + digit_val c \<longleftrightarrow> 1 \<le> acc \<or> c \<noteq> CHR ''0''"
  proof (cases "c = CHR ''0''")
    case True
    then show ?thesis using Cons.prems(2) by (auto simp: digit_val_zero)
  next
    case False
    with digit_val_pos [OF c] Cons.prems(2) show ?thesis by simp
  qed
  from Cons.IH [OF r nonneg] pos show ?case by auto
qed

lemma decimal_value_bounds:
  assumes "list_all is_decimal buf"
  shows "0 \<le> decimal_value buf \<and> (1 \<le> decimal_value buf \<longleftrightarrow> (\<exists>d \<in> set buf. d \<noteq> CHR ''0''))"
  using digits_value_bounds [OF assms, of 0] by (simp add: decimal_value_def)

text \<open>
  The loop, for a string of decimal digits, letters and \<^verbatim>\<open>=\<close>: the operations it adds
  are those of the segments of the string, each with the value of its digits.
\<close>

lemma process_cigar_loop_segments:
  assumes "list_all (\<lambda>c. is_decimal c \<or> isalpha c \<or> c = CHR ''='') s"
    and "list_all is_decimal cigar_int"
    and "process_cigar_loop s cigar_list cigar_int = Inr ops"
  shows "ops = cigar_list @ map (\<lambda>seg. (decimal_value (fst seg), snd seg)) (cigar_segments s cigar_int) \<and>
         list_all (\<lambda>seg. fst seg \<noteq> [] \<and> list_all is_decimal (fst seg)) (cigar_segments s cigar_int)"
  using assms
proof (induction s arbitrary: cigar_list cigar_int)
  case Nil
  then show ?case by simp
next
  case (Cons c s)
  have rest: "list_all (\<lambda>c. is_decimal c \<or> isalpha c \<or> c = CHR ''='') s"
    using Cons.prems(1) by simp
  show ?case
  proof (cases "isalpha c \<or> c = CHR ''=''")
    case False
    with Cons.prems(1) have c: "is_decimal c" by simp
    from False Cons.prems(3) have run:
      "process_cigar_loop s cigar_list (cigar_int @ [c]) = Inr ops" by simp
    have buf: "list_all is_decimal (cigar_int @ [c])"
      using Cons.prems(2) c by simp
    from Cons.IH [OF rest buf run] False show ?thesis by simp
  next
    case True
    with Cons.prems(3) have ne: "cigar_int \<noteq> []" by (auto split: if_splits)
    have n: "py_int cigar_int = Some (decimal_value cigar_int)"
      by (rule py_int_decimal_value [OF Cons.prems(2) ne])
    from True ne n Cons.prems(3) have run:
      "process_cigar_loop s (cigar_list @ [(decimal_value cigar_int, c)]) [] = Inr ops" by simp
    have buf: "list_all is_decimal []" by simp
    from Cons.IH [OF rest buf run] True ne Cons.prems(2) show ?thesis by simp
  qed
qed

text \<open>
  Claim C9, as stated: no operation that the parser emits has length 0. The parser accepts
  \<^verbatim>\<open>0M\<close> and emits the operation \<^verbatim>\<open>M\<close> of length 0.
\<close>

theorem zero_length_operation:
  "process_cigar_string ''0M'' = Inr [(0, CHR ''M'')]"
  by code_simp

text \<open>
  Claim C9, amended. For every string of the decimal digits 0 to 9, letters and \<^verbatim>\<open>=\<close> that
  the parser accepts, the operations emitted are those of the segments of the string, one
  for one and in order; the length of each is the number that the digits of its segment
  denote, which is at least 0, and is at least 1 exactly when one of these digits is not
  0. So a length is 0 only for a segment whose digits are all 0, as in \<^verbatim>\<open>0M\<close>.
\<close>

theorem process_cigar_string_lengths:
  assumes "list_all (\<lambda>c. is_decimal c \<or> isalpha c \<or> c = CHR ''='') cigar_string"
    and "process_cigar_string cigar_string = Inr ops"
  shows "list_all2
           (\<lambda>e seg. snd e = snd seg \<and> fst e = decimal_value (fst seg) \<and> 0 \<le> fst e \<and>
                     (1 \<le> fst e \<longleftrightarrow> (\<exists>d \<in> set (fst seg). d \<noteq> CHR ''0'')))
           ops (cigar_segments cigar_string [])"
proof -
  let ?segs = "cigar_segments cigar_string []"
  from process_cigar_loop_segments [OF assms(1) _ assms(2) [unfolded process_cigar_string_def]]
  have ops: "ops = map (\<lambda>seg. (decimal_value (fst seg), snd seg)) ?segs"
    and digits: "list_all (\<lambda>seg. fst seg \<noteq> [] \<and> list_all is_decimal (fst seg)) ?segs"
    by simp_all
  have "\<forall>seg \<in> set ?segs.
          0 \<le> decimal_value (fst seg) \<and>
          (1 \<le> decimal_value (fst seg) \<longleftrightarrow> (\<exists>d \<in> set (fst seg). d \<noteq> CHR ''0''))"
    using digits decimal_value_bounds by (simp add: list_all_iff)
  then show ?thesis
    unfolding ops by (simp add: list_all2_map1 list_all2_same)
qed

theorem process_cigar_string_lengths_witness:
  "process_cigar_string ''10M0D8M'' = Inr [(10, CHR ''M''), (0, CHR ''D''), (8, CHR ''M'')] \<and>
   cigar_segments ''10M0D8M'' [] = [(''10'', CHR ''M''), (''0'', CHR ''D''), (''8'', CHR ''M'')] \<and>
   list_all2
     (\<lambda>e seg. snd e = snd seg \<and> fst e = decimal_value (fst seg) \<and> 0 \<le> fst e \<and>
               (1 \<le> fst e \<longleftrightarrow> (\<exists>d \<in> set (fst seg). d \<noteq> CHR ''0'')))
     [(10, CHR ''M''), (0, CHR ''D''), (8, CHR ''M'')]
     [(''10'', CHR ''M''), (''0'', CHR ''D''), (''8'', CHR ''M'')]"
proof -
  have chars: "list_all (\<lambda>c. is_decimal c \<or> isalpha c \<or> c = CHR ''='') ''10M0D8M''"
    by code_simp
  have accepted:
    "process_cigar_string ''10M0D8M'' = Inr [(10, CHR ''M''), (0, CHR ''D''), (8, CHR ''M'')]"
    by code_simp
  have segments:
    "cigar_segments ''10M0D8M'' [] = [(''10'', CHR ''M''), (''0'', CHR ''D''), (''8'', CHR ''M'')]"
    by code_simp
  from process_cigar_string_lengths [OF chars accepted] accepted segments
  show ?thesis by simp
qed

subsection \<open>The genomic cursor and negative lengths\<close>

text \<open>
  For a CIGAR string of decimal digits, letters and \<^verbatim>\<open>=\<close>, no length is negative, and the
  lengths of the operations that consume the reference sum to the distance that the
  genomic cursor travels.
\<close>

lemma parsed_lengths_nonneg:
  assumes "list_all (\<lambda>c. is_decimal c \<or> isalpha c \<or> c = CHR ''='') cigar_string"
    and "process_cigar_string cigar_string = Inr ops"
  shows "\<forall>e \<in> set ops. 0 \<le> fst e"
proof -
  have "list_all (\<lambda>c. is_decimal c \<and> 0 \<le> digit_val c \<or> isalpha c \<or> c = CHR ''='') cigar_string"
    using assms(1) by (auto simp: list_all_iff digit_val_nonneg)
  from process_cigar_loop_lengths [OF this _ _ assms(2) [unfolded process_cigar_string_def]]
  show ?thesis by simp
qed

lemma final_chr_idx_of_parsed:
  assumes "list_all (\<lambda>c. is_decimal c \<or> isalpha c \<or> c = CHR ''='') cigar_string"
    and "process_cigar_string cigar_string = Inr ops"
  shows "final_chr_idx S ops - S =
           sum_list (map fst (filter (\<lambda>e. reference_consuming (snd e)) ops))"
  by (rule final_chr_idx_nonneg_lengths [OF parsed_lengths_nonneg [OF assms]])

text \<open>
  Claim C6. The claim wants, for every start and every parsed CIGAR sequence, the lengths
  of the operations \<^verbatim>\<open>M\<close>, \<^verbatim>\<open>=\<close>, \<^verbatim>\<open>X\<close>, \<^verbatim>\<open>D\<close> and \<^verbatim>\<open>N\<close> to sum to the final value of
  \<^verbatim>\<open>chr_idx\<close> minus the start. The row with the CIGAR string \<^verbatim>\<open>-8M5M\<close> passes
  \<^verbatim>\<open>check_genome_map_line_format\<close>, whose search is satisfied by \<^verbatim>\<open>8M\<close>, and
  \<^verbatim>\<open>process_cigar_string\<close> reads the sign into the length: the parsed sequence is \<^verbatim>\<open>M\<close> of
  length -8 and \<^verbatim>\<open>M\<close> of length 5. The loop over \<^verbatim>\<open>range(-8)\<close> does not run, so from start 0
  the cursor ends at 5, while the lengths sum to -3.
\<close>

theorem negative_length_breaks_reference_sum:
  "create_transcript_genomic_dict [[''TR1'', ''CHR1'', ''0'', ''-8M5M'']] =
     Inr [(''TR1'', [(''CHR1'', \<lparr>start_coord = 0, cigar = [(- 8, CHR ''M''), (5, CHR ''M'')]\<rparr>)])] \<and>
   final_chr_idx 0 [(- 8, CHR ''M''), (5, CHR ''M'')] - 0 = 5 \<and>
   sum_list (map fst (filter (\<lambda>e. reference_consuming (snd e))
     [(- 8 :: int, CHR ''M''), (5, CHR ''M'')])) = - 3"
proof (intro conjI)
  show "create_transcript_genomic_dict [[''TR1'', ''CHR1'', ''0'', ''-8M5M'']] =
     Inr [(''TR1'', [(''CHR1'', \<lparr>start_coord = 0, cigar = [(- 8, CHR ''M''), (5, CHR ''M'')]\<rparr>)])]"
    by code_simp
  show "final_chr_idx 0 [(- 8, CHR ''M''), (5, CHR ''M'')] - 0 = 5"
    by code_simp
  show "sum_list (map fst (filter (\<lambda>e. reference_consuming (snd e))
     [(- 8 :: int, CHR ''M''), (5, CHR ''M'')])) = - 3"
    by (simp add: reference_consuming_def)
qed

subsection \<open>Queries\<close>

lemma not_dict_in_map_of: "\<not> dict_in k d \<Longrightarrow> map_of d k = None"
  by (simp add: dict_in_def map_of_eq_None_iff)

text \<open>
  Claim C7. A query (two fields, the second a number) for a transcript that is not a key of
  the coordinate map gets a single message, that the transcript is unknown; nothing is
  written for it, the run does not stop, and the queries after it are processed from the
  state so reached.
\<close>

theorem unknown_transcript:
  assumes "isdigit tr_coord"
    and "\<not> dict_in tr_id coord_map"
  shows "merge_query coord_map [tr_id, tr_coord] (out, msgs) =
           Inr (out, msgs @ [UnknownTranscript tr_id]) \<and>
         merge_queries coord_map ([tr_id, tr_coord] # transcript_processing_file) (out, msgs) =
           merge_queries coord_map transcript_processing_file
             (out, msgs @ [UnknownTranscript tr_id])"
  using assms(1) not_dict_in_map_of [OF assms(2)]
  by (simp add: merge_query_def check_transcript_line_format_def)

theorem unknown_transcript_witness:
  "merge_queries [(''TR1'', [(''CHR1'', [(0, 3)])])] [[''TR9'', ''0''], [''TR1'', ''0'']] ([], []) =
     Inr ([(''TR1'', ''0'', ''CHR1'', 3)], [UnknownTranscript ''TR9''])"
proof -
  have number: "isdigit ''0''" by code_simp
  have unknown: "\<not> dict_in ''TR9'' [(''TR1'', [(''CHR1'', [(0 :: int, 3 :: int)])])]"
    by (simp add: dict_in_def)
  from unknown_transcript [OF number unknown, of "[]" "[]" "[[''TR1'', ''0'']]"]
  have "merge_queries [(''TR1'', [(''CHR1'', [(0, 3)])])] [[''TR9'', ''0''], [''TR1'', ''0'']] ([], []) =
        merge_queries [(''TR1'', [(''CHR1'', [(0, 3)])])] [[''TR1'', ''0'']]
          ([], [UnknownTranscript ''TR9''])"
    by simp
  also have "\<dots> = Inr ([(''TR1'', ''0'', ''CHR1'', 3)], [UnknownTranscript ''TR9''])"
    by code_simp
  finally show ?thesis .
qed

lemma merge_chromosomes_eq:
  "py_int tr_coord = Some n \<Longrightarrow>
   merge_chromosomes tr_id tr_coord chromosomes (out, msgs) =
     Inr (out @ written_lines tr_id tr_coord n chromosomes,
          msgs @ printed_messages tr_id tr_coord n chromosomes)"
  by (induction chromosomes arbitrary: out msgs) (auto split: option.splits)

lemma written_lines_append:
  "written_lines tr_id tr_coord n (xs @ ys) =
     written_lines tr_id tr_coord n xs @ written_lines tr_id tr_coord n ys"
  by (induction xs) (auto split: option.splits)

lemma printed_messages_append:
  "printed_messages tr_id tr_coord n (xs @ ys) =
     printed_messages tr_id tr_coord n xs @ printed_messages tr_id tr_coord n ys"
  by (induction xs) (auto split: option.splits)

text \<open>
  Claim C8. A query (two fields, the second a number that reads as \<open>n\<close>) for a transcript of
  the coordinate map, and a chromosome of that transcript whose dictionary does not have
  the key \<open>n\<close>: for that chromosome the program prints the message that the coordinate
  does not exist and writes no line. What it writes and prints for the query is what the
  chromosomes before and after that one give, with that one message between.
\<close>

theorem unmapped_coordinate:
  assumes "isdigit tr_coord"
    and "map_of coord_map tr_id = Some (before @ (ch, genomic_dict) # after)"
    and "py_int tr_coord = Some n"
    and "\<not> dict_in n genomic_dict"
  shows "merge_query coord_map [tr_id, tr_coord] (out, msgs) =
           Inr (out @ written_lines tr_id tr_coord n before
                    @ written_lines tr_id tr_coord n after,
                msgs @ printed_messages tr_id tr_coord n before
                     @ [UnmappedCoordinate tr_coord tr_id]
                     @ printed_messages tr_id tr_coord n after)"
  using assms(1,2) not_dict_in_map_of [OF assms(4)]
  by (simp add: merge_query_def check_transcript_line_format_def
      merge_chromosomes_eq [OF assms(3)] written_lines_append printed_messages_append)

theorem unmapped_coordinate_witness:
  "transcript_to_genomic_coordinates
     [[''TR1'', ''CHR1'', ''3'', ''8M7D6M2I2M11D7M'']] [[''TR1'', ''14'']] =
   Inr ([], [UnmappedCoordinate ''14'' ''TR1''])"
proof -
  let ?gd = "generate_genomic_dict 3 example_cigar"
  have built: "create_transcript_genomic_dict [[''TR1'', ''CHR1'', ''3'', ''8M7D6M2I2M11D7M'']] =
      Inr [(''TR1'', [(''CHR1'', \<lparr>start_coord = 3, cigar = example_cigar\<rparr>)])]"
    by code_simp
  have mapped: "map_coordinates [(''TR1'', [(''CHR1'', \<lparr>start_coord = 3, cigar = example_cigar\<rparr>)])] =
      [(''TR1'', [(''CHR1'', ?gd)])]"
    by (simp add: map_coordinates_def)
  have number: "isdigit ''14''" by code_simp
  have known: "map_of [(''TR1'', [(''CHR1'', ?gd)])] ''TR1'' = Some ([] @ (''CHR1'', ?gd) # [])"
    by simp
  have reads: "py_int ''14'' = Some 14" by code_simp
  have absent: "\<not> dict_in 14 ?gd" by code_simp
  from unmapped_coordinate [OF number known reads absent, of "[]" "[]"]
  have "merge_query [(''TR1'', [(''CHR1'', ?gd)])] [''TR1'', ''14''] ([], []) =
        Inr ([], [UnmappedCoordinate ''14'' ''TR1''])"
    by simp
  then show ?thesis
    by (simp add: transcript_to_genomic_coordinates_def built mapped merge_transcript_file_def)
qed

subsection \<open>Malformed CIGAR strings\<close>

text \<open>The two examples of a malformed CIGAR string stop the run.\<close>

lemma malformed_examples_rejected:
  "create_transcript_genomic_dict [[''TR1'', ''CHR1'', ''3'', ''8MX'']] = Inl WrongCigarFormat \<and>
   create_transcript_genomic_dict [[''TR1'', ''CHR1'', ''3'', ''8Q'']] = Inl InvalidCigarCharacters"
proof
  show "create_transcript_genomic_dict [[''TR1'', ''CHR1'', ''3'', ''8MX'']] = Inl WrongCigarFormat"
    by code_simp
  show "create_transcript_genomic_dict [[''TR1'', ''CHR1'', ''3'', ''8Q'']] = Inl InvalidCigarCharacters"
    by code_simp
qed

text \<open>
  A letter or \<^verbatim>\<open>=\<close> that comes first in the string, or directly after another one, stops
  \<^verbatim>\<open>process_cigar_string\<close>, wherever it stands.
\<close>

lemma process_cigar_loop_missing_length:
  assumes "isalpha c \<or> c = CHR ''=''"
    and "if pre = [] then cigar_int = [] else isalpha (last pre) \<or> last pre = CHR ''=''"
  shows "\<exists>e. process_cigar_loop (pre @ c # rest) cigar_list cigar_int = Inl e"
  using assms(2)
proof (induction pre arbitrary: cigar_list cigar_int)
  case Nil
  with assms(1) show ?case by simp
next
  case (Cons p pre)
  show ?case
  proof (cases "pre = []")
    case True
    with Cons.prems have p: "isalpha p \<or> p = CHR ''=''" by simp
    have "\<exists>e. process_cigar_loop (c # rest) acc [] = Inl e" for acc
      using assms(1) by simp
    with p True show ?thesis by (auto split: option.splits)
  next
    case False
    with Cons.prems have "isalpha (last pre) \<or> last pre = CHR ''=''" by simp
    with False have "\<exists>e. process_cigar_loop (pre @ c # rest) acc buf = Inl e" for acc buf
      by (intro Cons.IH) simp
    then show ?thesis by (auto split: option.splits)
  qed
qed

text \<open>
  Claim C2. The claim wants every CIGAR string with a character outside the alphabet of
  operations refused, wherever the character stands. The row with the CIGAR string
  \<^verbatim>\<open>8M8Q\<close> passes \<^verbatim>\<open>check_genome_map_line_format\<close>, whose search is satisfied by \<^verbatim>\<open>8M\<close>, and
  \<^verbatim>\<open>process_cigar_string\<close>, which takes any letter for an operator: the run goes on with
  an operation \<^verbatim>\<open>Q\<close>.
\<close>

theorem invalid_operator_accepted:
  "create_transcript_genomic_dict [[''TR1'', ''CHR1'', ''3'', ''8M8Q'']] =
     Inr [(''TR1'', [(''CHR1'', \<lparr>start_coord = 3, cigar = [(8, CHR ''M''), (8, CHR ''Q'')]\<rparr>)])]"
  by code_simp

subsection \<open>A transcript on several chromosomes\<close>

lemma map_of_dict_set: "map_of (dict_set d k v) k = Some v"
  by (induction d) auto

text \<open>After a row is read, its transcript has the chromosome of that row and no other.\<close>

lemma create_row_single_chromosome:
  assumes "create_row transcript_to_genomic_dict rows = Inr d"
  shows "\<exists>a. map_of d (rows ! 0) = Some [(rows ! 1, a)]"
  using assms
  by (auto simp: create_row_def Let_def map_of_dict_set split: option.splits sum.splits)

text \<open>
  Claim C3. The claim wants a transcript that appears with two chromosomes to keep an
  entry for each, and a query for it to give a line for each. Of the two rows for
  \<^verbatim>\<open>TR1\<close>, on \<^verbatim>\<open>CHR1\<close> and on \<^verbatim>\<open>CHR2\<close>, the dictionary keeps the second only, and the query
  is answered for \<^verbatim>\<open>CHR2\<close> only.
\<close>

theorem second_chromosome_replaces_first:
  "create_transcript_genomic_dict
     [[''TR1'', ''CHR1'', ''3'', ''8M''], [''TR1'', ''CHR2'', ''10'', ''8M'']] =
     Inr [(''TR1'', [(''CHR2'', \<lparr>start_coord = 10, cigar = [(8, CHR ''M'')]\<rparr>)])] \<and>
   transcript_to_genomic_coordinates
     [[''TR1'', ''CHR1'', ''3'', ''8M''], [''TR1'', ''CHR2'', ''10'', ''8M'']] [[''TR1'', ''4'']] =
     Inr ([(''TR1'', ''4'', ''CHR2'', 14)], [])"
proof
  show "create_transcript_genomic_dict
     [[''TR1'', ''CHR1'', ''3'', ''8M''], [''TR1'', ''CHR2'', ''10'', ''8M'']] =
     Inr [(''TR1'', [(''CHR2'', \<lparr>start_coord = 10, cigar = [(8, CHR ''M'')]\<rparr>)])]"
    by code_simp
  show "transcript_to_genomic_coordinates
     [[''TR1'', ''CHR1'', ''3'', ''8M''], [''TR1'', ''CHR2'', ''10'', ''8M'']] [[''TR1'', ''4'']] =
     Inr ([(''TR1'', ''4'', ''CHR2'', 14)], [])"
    by code_simp
qed

end
